theory Spec2Isabelle
  imports Main
begin

section \<open>Values shared by the tools\<close>

text \<open>
  The tools of \<^verbatim>\<open>mcp_tools.py\<close> return Python dictionaries that the orchestrator
  serialises with \<^verbatim>\<open>json.dumps\<close>. A payload is modelled as the JSON value it is:
  a string, a list, or a dictionary kept as an association list in insertion order
  (the order Python dictionaries keep).

  A Python string is modelled as the \<^typ>\<open>string\<close> of the bytes of its UTF-8 encoding.
  Equality, emptiness and the test for a contiguous substring are the same on the
  encodings as on the strings.
\<close>

datatype json = JStr string | JList "json list" | JDict "(string \<times> json) list"

type_synonym payload = "(string \<times> json) list"

text \<open>\<^verbatim>\<open>d.get(k, default)\<close> and \<^verbatim>\<open>d[k] = v\<close> on an insertion-ordered dictionary.\<close>

definition dict_get :: "('k \<times> 'v) list \<Rightarrow> 'k \<Rightarrow> 'v \<Rightarrow> 'v" where
  "dict_get d k dflt = (case map_of d k of None \<Rightarrow> dflt | Some v \<Rightarrow> v)"

fun dict_set :: "'k \<Rightarrow> 'v \<Rightarrow> ('k \<times> 'v) list \<Rightarrow> ('k \<times> 'v) list" where
  "dict_set k v [] = [(k, v)]"
| "dict_set k v ((k', v') # d) =
     (if k' = k then (k, v) # d else (k', v') # dict_set k v d)"

text \<open>
  The truth value Python gives an \<^verbatim>\<open>Optional[str]\<close> in \<^verbatim>\<open>if category:\<close>:
  \<^verbatim>\<open>None\<close> and the empty string are false, every other string is true.
\<close>

fun truthy :: "string option \<Rightarrow> bool" where
  "truthy None = False"
| "truthy (Some s) = (s \<noteq> [])"

text \<open>
  \<^verbatim>\<open>str.lower()\<close>. Which characters are cased, and what their lower case is, is decided
  by the Unicode tables of the interpreter; they are outside the program, so the function
  on strings that they define is the parameter \<open>lw\<close>. The empty string has no character
  to fold and is its own lower case.
\<close>

definition lower :: "(string \<Rightarrow> string) \<Rightarrow> string \<Rightarrow> string" where
  "lower lw s = (if s = [] then [] else lw s)"

text \<open>
  On ASCII text the tables move the letters A to Z (codes 65 to 90) to a to z and leave
  every other character. \<open>ascii_lower\<close> is that function; the examples, whose text is
  ASCII, take it for \<open>lw\<close>.
\<close>

definition ascii_lower_char :: "char \<Rightarrow> char" where
  "ascii_lower_char c =
     (let n = (of_char c :: nat) in if 65 \<le> n \<and> n \<le> 90 then char_of (n + 32) else c)"

definition ascii_lower :: "string \<Rightarrow> string" where
  "ascii_lower s = map ascii_lower_char s"

text \<open>\<^verbatim>\<open>a in b\<close> on strings: \<^verbatim>\<open>a\<close> occurs in \<^verbatim>\<open>b\<close> as a contiguous run.\<close>

fun starts_with :: "string \<Rightarrow> string \<Rightarrow> bool" where
  "starts_with [] ys = True"
| "starts_with (x # xs) [] = False"
| "starts_with (x # xs) (y # ys) = (x = y \<and> starts_with xs ys)"

fun str_in :: "string \<Rightarrow> string \<Rightarrow> bool" where
  "str_in xs [] = (xs = [])"
| "str_in xs (y # ys) = (starts_with xs (y # ys) \<or> str_in xs ys)"

section \<open>WeatherMCP: the weather-code table\<close>

definition weather_codes :: "(int \<times> string) list" where
  "weather_codes =
     [(0, ''Clear sky''), (1, ''Mainly clear''), (2, ''Partly cloudy''), (3, ''Overcast''),
      (45, ''Foggy''), (48, ''Depositing rime fog''), (51, ''Light drizzle''),
      (53, ''Moderate drizzle''), (55, ''Dense drizzle''), (61, ''Slight rain''),
      (63, ''Moderate rain''), (65, ''Heavy rain''), (80, ''Slight rain showers''),
      (81, ''Moderate rain showers''), (82, ''Violent rain showers''),
      (95, ''Thunderstorm''), (96, ''Thunderstorm with slight hail''),
      (99, ''Thunderstorm with heavy hail'')]"

definition get_weather_description :: "int \<Rightarrow> string" where
  "get_weather_description code = dict_get weather_codes code ''Unknown conditions''"

section \<open>MemoryMCP: the preference and conversation store\<close>

text \<open>
  \<^verbatim>\<open>self.memory\<close> is the document loaded from \<^verbatim>\<open>data/memory.json\<close>: a dictionary
  whose key \<^verbatim>\<open>"preferences"\<close>, when present, holds a dictionary from category to a list
  of preference strings, and whose key \<^verbatim>\<open>"conversations"\<close>, when present, holds a list
  of entries with a topic, a summary and a timestamp. \<^verbatim>\<open>None\<close> below is the absent key.

  \<^verbatim>\<open>_save_memory\<close> writes the document to the file, catches every exception of the
  write and never touches \<^verbatim>\<open>self.memory\<close>; the file is read again only by the
  constructor. The model is the in-memory document.
\<close>

record conversation =
  topic :: string
  summary :: string
  timestamp :: string

record memory_doc =
  preferences :: "(string \<times> string list) list option"
  conversations :: "conversation list option"

definition empty_memory :: memory_doc where
  "empty_memory = \<lparr>preferences = None, conversations = None\<rparr>"

text \<open>\<^verbatim>\<open>self.memory.get("preferences", {})\<close> and \<^verbatim>\<open>self.memory.get("conversations", [])\<close>.\<close>

definition preferences_of :: "memory_doc \<Rightarrow> (string \<times> string list) list" where
  "preferences_of mem = (case preferences mem of None \<Rightarrow> [] | Some p \<Rightarrow> p)"

definition conversations_of :: "memory_doc \<Rightarrow> conversation list" where
  "conversations_of mem = (case conversations mem of None \<Rightarrow> [] | Some c \<Rightarrow> c)"

definition store_preference :: "memory_doc \<Rightarrow> string \<Rightarrow> string \<Rightarrow> payload \<times> memory_doc" where
  "store_preference mem category preference =
     (let p0 = (case preferences mem of None \<Rightarrow> [] | Some p \<Rightarrow> p);
          p1 = (if map_of p0 category = None then dict_set category [] p0 else p0);
          l = dict_get p1 category [];
          p2 = (if preference \<notin> set l then dict_set category (l @ [preference]) p1 else p1)
      in ([(''status'', JStr ''stored''), (''category'', JStr category),
           (''preference'', JStr preference)],
          mem\<lparr>preferences := Some p2\<rparr>))"

definition preferences_json :: "(string \<times> string list) list \<Rightarrow> payload" where
  "preferences_json p = map (\<lambda>(c, l). (c, JList (map JStr l))) p"

definition get_preferences :: "memory_doc \<Rightarrow> string option \<Rightarrow> payload" where
  "get_preferences mem category =
     (let prefs = preferences_of mem
      in case category of
           Some c \<Rightarrow>
             if truthy category then [(c, JList (map JStr (dict_get prefs c [])))]
             else preferences_json prefs
         | None \<Rightarrow> preferences_json prefs)"

definition conversation_json :: "conversation \<Rightarrow> json" where
  "conversation_json c =
     JDict [(''topic'', JStr (topic c)), (''summary'', JStr (summary c)),
            (''timestamp'', JStr (timestamp c))]"

text \<open>
  \<^verbatim>\<open>datetime.datetime.now().isoformat()\<close> is the argument \<open>now\<close>: the clock is outside
  the program.
\<close>

definition store_conversation ::
  "string \<Rightarrow> memory_doc \<Rightarrow> string \<Rightarrow> string \<Rightarrow> payload \<times> memory_doc" where
  "store_conversation now mem topic' summary' =
     (let cs = (case conversations mem of None \<Rightarrow> [] | Some c \<Rightarrow> c);
          conv = \<lparr>topic = topic', summary = summary', timestamp = now\<rparr>
      in ([(''status'', JStr ''stored''), (''topic'', JStr topic')],
          mem\<lparr>conversations := Some (cs @ [conv])\<rparr>))"

text \<open>\<^verbatim>\<open>xs[-5:]\<close>: the last five elements, all of them when there are fewer.\<close>

definition last_five :: "'a list \<Rightarrow> 'a list" where
  "last_five xs = drop (length xs - 5) xs"

definition get_conversations ::
  "(string \<Rightarrow> string) \<Rightarrow> memory_doc \<Rightarrow> string option \<Rightarrow> payload" where
  "get_conversations lw mem topic' =
     (let cs = conversations_of mem
      in case topic' of
           Some t \<Rightarrow>
             if truthy topic' then
               [(''conversations'',
                 JList (map conversation_json
                          (filter (\<lambda>c. str_in (lower lw t) (lower lw (topic c))) cs)))]
             else [(''conversations'', JList (map conversation_json (last_five cs)))]
         | None \<Rightarrow> [(''conversations'', JList (map conversation_json (last_five cs)))])"

section \<open>WeatherMCP: the lookup\<close>

text \<open>
  The two remote services are outside the program. Each is an oracle that either raises
  (\<open>Inl\<close> with the text \<^verbatim>\<open>str(e)\<close> of the exception of \<^verbatim>\<open>requests.get\<close> or of
  \<^verbatim>\<open>.json()\<close>) or returns the decoded JSON document. The documents have the shape the
  provider documents; a key the document lacks is \<open>None\<close>, and reading it with
  \<^verbatim>\<open>d[key]\<close> raises \<^verbatim>\<open>KeyError\<close>. A JSON number is kept as the text Python prints
  for it, since the code only formats and forwards numbers; the weather code is an
  integer.
\<close>

type_synonym number = string

record location =
  loc_name :: "string option"
  loc_country :: "string option"
  latitude :: "number option"
  longitude :: "number option"

text \<open>\<open>results = None\<close>: the key \<^verbatim>\<open>"results"\<close> is absent or null.\<close>

record geo_data =
  results :: "location list option"

record current =
  temperature :: "number option"
  windspeed :: "number option"
  winddirection :: "number option"
  weathercode :: "int option"

text \<open>
  \<open>current_weather = None\<close>: the key \<^verbatim>\<open>"current_weather"\<close> is absent, null or an empty
  dictionary, the values for which \<^verbatim>\<open>weather_data.get("current_weather") or {}\<close> is
  empty.
\<close>

record weather_data =
  current_weather :: "current option"

record network =
  geocoding :: "string \<Rightarrow> string + geo_data"
  forecast :: "number \<Rightarrow> number \<Rightarrow> string + weather_data"

text \<open>The calls of \<^verbatim>\<open>requests.get\<close> one lookup makes, in order, with their parameters.\<close>

datatype http_call = GeocodingCall string | ForecastCall number number

definition apostrophe :: string where
  "apostrophe = [CHR 0x27]"

text \<open>The degree sign U+00B0, as its two bytes in UTF-8.\<close>

definition degree_sign :: string where
  "degree_sign = [CHR 0xC2, CHR 0xB0]"

text \<open>\<^verbatim>\<open>str(KeyError(k))\<close> is the key in quotes.\<close>

definition key_error :: "string \<Rightarrow> string" where
  "key_error k = apostrophe @ k @ apostrophe"

definition city_not_found :: "string \<Rightarrow> payload" where
  "city_not_found city = [(''error'', JStr (''City '' @ apostrophe @ city @ apostrophe @ '' not found''))]"

definition unavailable :: "string \<Rightarrow> payload" where
  "unavailable e = [(''error'', JStr (''Weather data unavailable: '' @ e))]"

text \<open>The dictionary of the \<^verbatim>\<open>return\<close>; its values are evaluated in the order written.\<close>

definition weather_report :: "location \<Rightarrow> current \<Rightarrow> number \<Rightarrow> number \<Rightarrow> string + payload" where
  "weather_report loc cur lat lon =
     (case loc_name loc of None \<Rightarrow> Inl (key_error ''name'') | Some nm \<Rightarrow>
      case temperature cur of None \<Rightarrow> Inl (key_error ''temperature'') | Some t \<Rightarrow>
      case windspeed cur of None \<Rightarrow> Inl (key_error ''windspeed'') | Some ws \<Rightarrow>
      case winddirection cur of None \<Rightarrow> Inl (key_error ''winddirection'') | Some wd \<Rightarrow>
      case weathercode cur of None \<Rightarrow> Inl (key_error ''weathercode'') | Some code \<Rightarrow>
        Inr [(''city'', JStr nm),
             (''country'', JStr (case loc_country loc of None \<Rightarrow> [] | Some c \<Rightarrow> c)),
             (''temperature'', JStr (t @ degree_sign @ ''C'')),
             (''wind_speed'', JStr (ws @ '' km/h'')),
             (''wind_direction'', JStr (wd @ degree_sign)),
             (''conditions'', JStr (get_weather_description code)),
             (''coordinates'', JStr (lat @ '', '' @ lon))])"

text \<open>
  \<^verbatim>\<open>get_weather\<close> returns its payload together with the requests it sent. The
  parameter \<^verbatim>\<open>country\<close> is accepted and never read.
\<close>

definition get_weather :: "network \<Rightarrow> string \<Rightarrow> string \<Rightarrow> payload \<times> http_call list" where
  "get_weather net city country' =
     (case geocoding net city of
        Inl e \<Rightarrow> (unavailable e, [GeocodingCall city])
      | Inr gd \<Rightarrow>
          (case results gd of
             None \<Rightarrow> (city_not_found city, [GeocodingCall city])
           | Some [] \<Rightarrow> (city_not_found city, [GeocodingCall city])
           | Some (loc # _) \<Rightarrow>
               (case latitude loc of
                  None \<Rightarrow> (unavailable (key_error ''latitude''), [GeocodingCall city])
                | Some lat \<Rightarrow>
                    (case longitude loc of
                       None \<Rightarrow> (unavailable (key_error ''longitude''), [GeocodingCall city])
                     | Some lon \<Rightarrow>
                         (case forecast net lat lon of
                            Inl e \<Rightarrow>
                              (unavailable e, [GeocodingCall city, ForecastCall lat lon])
                          | Inr wd \<Rightarrow>
                              (case current_weather wd of
                                 None \<Rightarrow>
                                   ([(''error'', JStr ''Weather data unavailable'')],
                                    [GeocodingCall city, ForecastCall lat lon])
                               | Some cur \<Rightarrow>
                                   (case weather_report loc cur lat lon of
                                      Inl e \<Rightarrow>
                                        (unavailable e,
                                         [GeocodingCall city, ForecastCall lat lon])
                                    | Inr r \<Rightarrow>
                                        (r, [GeocodingCall city, ForecastCall lat lon]))))))))"

definition forecast_calls :: "http_call list \<Rightarrow> nat" where
  "forecast_calls calls =
     length (filter (\<lambda>c. case c of ForecastCall _ _ \<Rightarrow> True | GeocodingCall _ \<Rightarrow> False) calls)"

section \<open>SimpleMCP: the tool registry and dispatcher\<close>

text \<open>
  \<^verbatim>\<open>**kwargs\<close> is a mapping from keyword to value; the values are strings, as the
  handlers' annotations and the advertised schemas say. The state of \<^verbatim>\<open>SimpleMCP\<close> is
  the document of its \<^verbatim>\<open>MemoryMCP\<close>; \<^verbatim>\<open>WeatherMCP\<close> has no state.
\<close>

type_synonym kwargs = "string \<Rightarrow> string option"

definition kwargs_get :: "kwargs \<Rightarrow> string \<Rightarrow> string \<Rightarrow> string" where
  "kwargs_get kw k dflt = (case kw k of None \<Rightarrow> dflt | Some v \<Rightarrow> v)"

text \<open>
  What the dispatcher takes from the interpreter: \<^verbatim>\<open>str.lower\<close>, and the text of the
  \<^verbatim>\<open>TypeError\<close> ("got multiple values for argument ...") that a call raises when its
  bundle names a positional parameter.
\<close>

record python =
  str_lower :: "string \<Rightarrow> string"
  multiple_values :: "kwargs \<Rightarrow> string"

text \<open>
  \<^verbatim>\<open>process_tool_call(self, tool_name, **kwargs)\<close>. A call passes the tool name by
  position and the bundle as keywords, so a bundle that holds the keyword \<^verbatim>\<open>self\<close> or
  \<^verbatim>\<open>tool_name\<close> gives a positional parameter a second value: the call raises
  \<^verbatim>\<open>TypeError\<close> before the body runs (\<open>Inl\<close>). The body itself has no statement that
  raises on its typed arguments: the store never raises, and \<^verbatim>\<open>get_weather\<close> catches
  every exception. A bundle with a value that is no string is outside this function;
  \<open>dispatch\<close> below says what the model does with it.
\<close>

definition process_tool_call ::
  "python \<Rightarrow> network \<Rightarrow> string \<Rightarrow> memory_doc \<Rightarrow> string \<Rightarrow> kwargs
     \<Rightarrow> string + (payload \<times> memory_doc \<times> http_call list)" where
  "process_tool_call py net now mem tool_name kw =
     (if kw ''self'' \<noteq> None \<or> kw ''tool_name'' \<noteq> None then Inl (multiple_values py kw)
      else if tool_name = ''get_weather'' then
        (let city = kwargs_get kw ''city'' [];
             country' = kwargs_get kw ''country'' [];
             (r, calls) = get_weather net city country'
         in Inr (r, mem, calls))
      else if tool_name = ''store_preference'' then
        (let category = kwargs_get kw ''category'' [];
             preference = kwargs_get kw ''preference'' [];
             (r, mem') = store_preference mem category preference
         in Inr (r, mem', []))
      else if tool_name = ''get_preferences'' then
        Inr (get_preferences mem (kw ''category''), mem, [])
      else if tool_name = ''store_conversation'' then
        (let topic' = kwargs_get kw ''topic'' [];
             summary' = kwargs_get kw ''summary'' [];
             (r, mem') = store_conversation now mem topic' summary'
         in Inr (r, mem', []))
      else if tool_name = ''get_conversations'' then
        Inr (get_conversations (str_lower py) mem (kw ''topic''), mem, [])
      else Inr ([(''error'', JStr (''Unknown tool: '' @ tool_name))], mem, []))"

definition get_available_tools :: "(string \<times> string) list" where
  "get_available_tools =
     [(''get_weather'', ''Get current weather for a city''),
      (''store_preference'', ''Store a user preference''),
      (''get_preferences'', ''Get stored user preferences''),
      (''store_conversation'', ''Store conversation summary''),
      (''get_conversations'', ''Get conversation history'')]"

section \<open>SmartAI: the conversation orchestrator\<close>

text \<open>The four shapes of dictionary that \<^verbatim>\<open>conversation_history\<close> receives.\<close>

datatype entry =
    UserMessage string
  | AssistantMessage "string option"
  | FunctionCall string string
  | FunctionResult string string

text \<open>
  A function schema of the list \<^verbatim>\<open>functions\<close> of \<^verbatim>\<open>chat\<close> (\<open>chat_functions\<close> below,
  \<open>functions\<close> being a keyword here): its name, its description, and of its
  \<^verbatim>\<open>parameters\<close> object the properties (name, type, description) and the
  \<^verbatim>\<open>required\<close> list, \<open>None\<close> where the object has no such key.
\<close>

record function_schema =
  fn_name :: string
  fn_description :: string
  fn_properties :: "(string \<times> string \<times> string) list"
  fn_required :: "string list option"

definition chat_functions :: "function_schema list" where
  "chat_functions =
     [\<lparr>fn_name = ''get_weather'',
       fn_description = ''Get current weather information for a city'',
       fn_properties =
         [(''city'', ''string'', ''The city name''),
          (''country'', ''string'', ''The country (optional)'')],
       fn_required = Some [''city'']\<rparr>,
      \<lparr>fn_name = ''store_preference'',
       fn_description = ''Store a user preference'',
       fn_properties =
         [(''category'', ''string'',
           ''Category like '' @ apostrophe @ ''travel'' @ apostrophe @ '', ''
             @ apostrophe @ ''food'' @ apostrophe @ '', etc.''),
          (''preference'', ''string'', ''The preference to store'')],
       fn_required = Some [''category'', ''preference'']\<rparr>,
      \<lparr>fn_name = ''get_preferences'',
       fn_description = ''Get stored user preferences'',
       fn_properties =
         [(''category'', ''string'', ''Specific category or all if not specified'')],
       fn_required = None\<rparr>]"

text \<open>
  The keyword arguments of \<^verbatim>\<open>client.chat.completions.create\<close>; \<open>None\<close> is the keyword
  left out.
\<close>

record request =
  req_model :: string
  req_messages :: "entry list"
  req_functions :: "function_schema list option"
  req_function_call :: "string option"
  req_temperature :: string

record function_call =
  fc_name :: string
  fc_arguments :: string

text \<open>
  \<^verbatim>\<open>response.choices[0].message\<close>: an object with the attributes \<^verbatim>\<open>content\<close> and
  \<^verbatim>\<open>function_call\<close> (each possibly \<^verbatim>\<open>None\<close>), or, for the test
  \<^verbatim>\<open>isinstance(message, dict)\<close>, a plain dictionary, which has neither attribute.
\<close>

datatype message = MessageObject "string option" "function_call option" | MessageDict

definition no_attribute_content :: string where
  "no_attribute_content =
     apostrophe @ ''dict'' @ apostrophe @ '' object has no attribute ''
       @ apostrophe @ ''content'' @ apostrophe"

text \<open>
  The store as the orchestrator holds it: a document of the data model, or \<open>Foreign\<close>,
  a document outside it (a list that holds a number, say), which the typed store
  functions above do not describe.
\<close>

datatype store_state = Document memory_doc | Foreign

text \<open>
  What \<^verbatim>\<open>json.loads(message.function_call.arguments)\<close> gives:
  \<^item> \<open>LoadsRaises err\<close>: it raises, or its value is no dictionary, so that the call
    \<^verbatim>\<open>process_tool_call(function_name, **function_args)\<close> raises \<^verbatim>\<open>TypeError\<close> at once;
    \<open>err\<close> is the text of the exception;
  \<^item> \<open>Keywords kw\<close>: a dictionary whose values are all strings;
  \<^item> \<open>Untyped\<close>: a dictionary with a value that is no string.
\<close>

datatype parsed = LoadsRaises string | Keywords kwargs | Untyped

text \<open>
  How the statements up to the first append end:
  \<^item> \<open>CallRaises err st\<close>: \<^verbatim>\<open>json.loads\<close>, the formatting of the bundle for the
    \<^verbatim>\<open>print\<close>, or the call of \<^verbatim>\<open>process_tool_call\<close> raises \<open>err\<close> and leaves the store
    as \<open>st\<close>;
  \<^item> \<open>CallReturns d st\<close>: the call returns a result and leaves the store as \<open>st\<close>; \<open>d\<close> is
    what \<^verbatim>\<open>json.dumps\<close> does with that result, \<open>Inl\<close> the text of the exception it
    raises, \<open>Inr\<close> the text it returns.
\<close>

datatype dispatched = CallRaises string store_state | CallReturns "string + string" store_state

text \<open>
  What the orchestrator takes from outside: the model endpoint (\<open>Inl\<close> is the text of the
  exception that the call or the read of \<^verbatim>\<open>choices[0].message\<close> raises), \<^verbatim>\<open>str\<close> of a
  message object, \<^verbatim>\<open>json.loads\<close>, \<^verbatim>\<open>json.dumps\<close> (\<open>Inl\<close> when it raises), the
  interpreter, the network and the clock. For a call outside the typed model, with an
  untyped bundle or on a foreign store, the whole outcome of the dispatch is taken from
  outside as well (\<open>foreign_call\<close>, from the store, the function name and the argument
  string): the model leaves open what the tools do there.
\<close>

record env =
  create :: "request \<Rightarrow> string + message"
  str_message :: "message \<Rightarrow> string"
  json_loads :: "string \<Rightarrow> parsed"
  json_dumps :: "payload \<Rightarrow> string + string"
  foreign_call :: "store_state \<Rightarrow> string \<Rightarrow> string \<Rightarrow> dispatched"
  interpreter :: python
  net :: network
  clock :: string

record smart_ai =
  conversation_history :: "entry list"
  mcp :: store_state

definition init_smart_ai :: "memory_doc \<Rightarrow> smart_ai" where
  "init_smart_ai mem = \<lparr>conversation_history = [], mcp = Document mem\<rparr>"

definition first_request :: "entry list \<Rightarrow> request" where
  "first_request history =
     \<lparr>req_model = ''deepseek-chat'', req_messages = history,
      req_functions = Some chat_functions, req_function_call = Some ''auto'',
      req_temperature = ''0.7''\<rparr>"

definition final_request :: "entry list \<Rightarrow> request" where
  "final_request history =
     \<lparr>req_model = ''deepseek-chat'', req_messages = history,
      req_functions = None, req_function_call = None,
      req_temperature = ''0.7''\<rparr>"

text \<open>
  The first statements of \<^verbatim>\<open>_handle_function_call\<close>: parse the arguments, call the
  tool. \<^verbatim>\<open>json.dumps(tool_result)\<close> is evaluated later, between the two appends; its
  outcome depends on the result only and is computed here with it.
\<close>

definition dispatch :: "env \<Rightarrow> store_state \<Rightarrow> function_call \<Rightarrow> dispatched" where
  "dispatch e st fc =
     (case json_loads e (fc_arguments fc) of
        LoadsRaises err \<Rightarrow> CallRaises err st
      | Untyped \<Rightarrow> foreign_call e st (fc_name fc) (fc_arguments fc)
      | Keywords function_args \<Rightarrow>
          (case st of
             Foreign \<Rightarrow> foreign_call e st (fc_name fc) (fc_arguments fc)
           | Document mem \<Rightarrow>
               (case process_tool_call (interpreter e) (net e) (clock e) mem (fc_name fc)
                       function_args of
                  Inl err \<Rightarrow> CallRaises err st
                | Inr (tool_result, mem', calls) \<Rightarrow>
                    CallReturns (json_dumps e tool_result) (Document mem'))))"

text \<open>
  \<^verbatim>\<open>_handle_function_call\<close>. The result is the value returned (\<open>Inr\<close>) or the text of
  the exception that leaves the method (\<open>Inl\<close>), the state the method leaves, and the
  requests it sent to the endpoint. An exception of the dispatch comes before the first
  append; an exception of \<^verbatim>\<open>json.dumps\<close> comes after the append of the call entry and
  before the append of the result entry. The \<^verbatim>\<open>print\<close> writes to the standard
  output, which is taken to accept it.
\<close>

definition handle_function_call ::
  "env \<Rightarrow> smart_ai \<Rightarrow> function_call
     \<Rightarrow> (string + string option) \<times> smart_ai \<times> request list" where
  "handle_function_call e ai fc =
     (let function_name = fc_name fc in
      case dispatch e (mcp ai) fc of
        CallRaises err st \<Rightarrow> (Inl err, ai\<lparr>mcp := st\<rparr>, [])
      | CallReturns dumped st \<Rightarrow>
          (let h1 = conversation_history ai @ [FunctionCall function_name (fc_arguments fc)];
               ai1 = ai\<lparr>conversation_history := h1, mcp := st\<rparr>
           in case dumped of
                Inl err \<Rightarrow> (Inl err, ai1, [])
              | Inr text \<Rightarrow>
                  (let h2 = h1 @ [FunctionResult function_name text];
                       ai2 = ai1\<lparr>conversation_history := h2\<rparr>
                   in case create e (final_request h2) of
                        Inl err \<Rightarrow>
                          (Inr (Some (''Error processing tool result: '' @ err)), ai2,
                           [final_request h2])
                      | Inr MessageDict \<Rightarrow>
                          (Inr (Some (''Error processing tool result: '' @ no_attribute_content)),
                           ai2, [final_request h2])
                      | Inr (MessageObject content _) \<Rightarrow>
                          (Inr content,
                           ai2\<lparr>conversation_history := h2 @ [AssistantMessage content]\<rparr>,
                           [final_request h2]))))"

text \<open>
  \<^verbatim>\<open>chat\<close>: the reply, the state it leaves, and the requests it sent to the endpoint, in
  order. Every exception inside the \<^verbatim>\<open>try\<close> becomes the reply \<^verbatim>\<open>"Error: ..."\<close>;
  what was appended before it stays.
\<close>

definition chat :: "env \<Rightarrow> smart_ai \<Rightarrow> string \<Rightarrow> string option \<times> smart_ai \<times> request list" where
  "chat e ai message =
     (let ai1 = ai\<lparr>conversation_history := conversation_history ai @ [UserMessage message]\<rparr>;
          req = first_request (conversation_history ai1)
      in case create e req of
           Inl err \<Rightarrow> (Some (''Error: '' @ err), ai1, [req])
         | Inr MessageDict \<Rightarrow> (Some (''Error: '' @ no_attribute_content), ai1, [req])
         | Inr (MessageObject c (Some fc)) \<Rightarrow>
             (case handle_function_call e ai1 fc of
                (Inl err, ai2, reqs) \<Rightarrow> (Some (''Error: '' @ err), ai2, req # reqs)
              | (Inr reply, ai2, reqs) \<Rightarrow> (reply, ai2, req # reqs))
         | Inr (MessageObject c None) \<Rightarrow>
             (let content = str_message e (MessageObject c None)
              in (Some content,
                  ai1\<lparr>conversation_history :=
                        conversation_history ai1 @ [AssistantMessage (Some content)]\<rparr>,
                  [req])))"

text \<open>A session: the turns in order, each with the environment it meets.\<close>

fun run :: "smart_ai \<Rightarrow> (env \<times> string) list \<Rightarrow> smart_ai" where
  "run ai [] = ai"
| "run ai ((e, message) # turns) = run (fst (snd (chat e ai message))) turns"

section \<open>Notions used to state the properties\<close>

text \<open>The list a document holds for a category, empty when it holds none.\<close>

definition stored_list :: "memory_doc \<Rightarrow> string \<Rightarrow> string list" where
  "stored_list mem category =
     (case preferences mem of
        None \<Rightarrow> []
      | Some p \<Rightarrow> (case map_of p category of None \<Rightarrow> [] | Some l \<Rightarrow> l))"

text \<open>A sequence of \<^verbatim>\<open>store_preference\<close> calls, given as (category, preference) pairs.\<close>

fun store_all :: "memory_doc \<Rightarrow> (string \<times> string) list \<Rightarrow> memory_doc" where
  "store_all mem [] = mem"
| "store_all mem ((category, preference) # ops) =
     store_all (snd (store_preference mem category preference)) ops"

text \<open>The elements of a list in the order of their first occurrence, each once.\<close>

definition first_occurrences :: "'a list \<Rightarrow> 'a list" where
  "first_occurrences xs = rev (remdups (rev xs))"

text \<open>The preferences that a sequence of calls names for one category, in call order.\<close>

definition named_for :: "string \<Rightarrow> (string \<times> string) list \<Rightarrow> string list" where
  "named_for category ops = map snd (filter (\<lambda>op. fst op = category) ops)"

text \<open>
  Environments and documents for the examples. \<open>ascii_python\<close> folds ASCII letters.
  In \<open>calling_env\<close> the endpoint answers a request that advertises functions with a call
  of \<^verbatim>\<open>get_preferences\<close> and a request without them with text. In \<open>plain_env\<close> it
  always answers with the text "Hello", and \<^verbatim>\<open>str\<close> of a message object lists the
  object's fields, as the client library's objects do.

  \<open>storing_env\<close> and \<open>asking_env\<close> are two turns of one session. In the first the endpoint
  asks for \<^verbatim>\<open>store_preference\<close> with an argument string (\<open>deep_arguments\<close> stands for it)
  whose \<^verbatim>\<open>preference\<close> is a list nested as deep as \<^verbatim>\<open>json.loads\<close> accepts; the tool
  stores the list, and its result, as deep as the bundle was, is serialised. In the second
  the endpoint asks for \<^verbatim>\<open>get_preferences\<close> of that category; the result wraps the
  stored list in a list and a dictionary, one level deeper than before, and
  \<^verbatim>\<open>json.dumps\<close> of it raises \<^verbatim>\<open>RecursionError\<close>.
\<close>

definition ascii_python :: python where
  "ascii_python =
     \<lparr>str_lower = ascii_lower,
      multiple_values = (\<lambda>kw. ''process_tool_call() got multiple values for argument'')\<rparr>"

definition offline :: network where
  "offline = \<lparr>geocoding = (\<lambda>city. Inl ''offline''), forecast = (\<lambda>lat lon. Inl ''offline'')\<rparr>"

definition object_text :: "message \<Rightarrow> string" where
  "object_text m =
     (case m of
        MessageObject (Some c) _ \<Rightarrow>
          ''ChatCompletionMessage(content='' @ apostrophe @ c @ apostrophe
            @ '', role='' @ apostrophe @ ''assistant'' @ apostrophe @ '', function_call=None)''
      | _ \<Rightarrow> ''ChatCompletionMessage(content=None)'')"

definition calling_env :: env where
  "calling_env =
     \<lparr>create = (\<lambda>req. case req_functions req of
                   Some fs \<Rightarrow>
                     Inr (MessageObject None
                            (Some \<lparr>fc_name = ''get_preferences'', fc_arguments = ''{}''\<rparr>))
                 | None \<Rightarrow> Inr (MessageObject (Some ''Nothing stored yet.'') None)),
      str_message = object_text,
      json_loads = (\<lambda>s. Keywords (\<lambda>k. None)),
      json_dumps = (\<lambda>p. Inr ''{}''),
      foreign_call = (\<lambda>st n a. CallRaises ''unused'' st),
      interpreter = ascii_python,
      net = offline,
      clock = ''2024-01-01T00:00:00''\<rparr>"

definition plain_env :: env where
  "plain_env = calling_env\<lparr>create := (\<lambda>req. Inr (MessageObject (Some ''Hello'') None))\<rparr>"

definition deep_arguments :: string where
  "deep_arguments = ''{category: x, preference: [[[[...]]]]}''"

definition category_arguments :: string where
  "category_arguments = ''{category: x}''"

definition recursion_error :: string where
  "recursion_error = ''maximum recursion depth exceeded while encoding a JSON object''"

definition storing_env :: env where
  "storing_env =
     calling_env
       \<lparr>create := (\<lambda>req. case req_functions req of
                     Some fs \<Rightarrow>
                       Inr (MessageObject None
                              (Some \<lparr>fc_name = ''store_preference'',
                                     fc_arguments = deep_arguments\<rparr>))
                   | None \<Rightarrow> Inr (MessageObject (Some ''Stored.'') None)),
        json_loads := (\<lambda>s. Untyped),
        foreign_call := (\<lambda>st n a. CallReturns (Inr ''{status: stored, ...}'') Foreign)\<rparr>"

definition asking_env :: env where
  "asking_env =
     calling_env
       \<lparr>create := (\<lambda>req. Inr (MessageObject None
                      (Some \<lparr>fc_name = ''get_preferences'',
                             fc_arguments = category_arguments\<rparr>))),
        json_loads := (\<lambda>s. Keywords (map_of [(''category'', ''x'')])),
        foreign_call := (\<lambda>st n a. CallReturns (Inl recursion_error) Foreign)\<rparr>"

text \<open>A geocoder that knows no city.\<close>

definition no_city :: network where
  "no_city = \<lparr>geocoding = (\<lambda>city. Inr \<lparr>results = Some []\<rparr>),
              forecast = (\<lambda>lat lon. Inl ''offline'')\<rparr>"


text \<open>A document, as a hand-edited file may hold it, that lists one preference twice.\<close>

definition twice_listed :: memory_doc where
  "twice_listed =
     \<lparr>preferences = Some [(''travel'', [''museums'', ''museums''])], conversations = None\<rparr>"

section \<open>Dictionaries\<close>

lemma map_of_dict_set: "map_of (dict_set k v d) = (map_of d)(k \<mapsto> v)"
  by (induction d) (auto simp: fun_eq_iff)

lemma dict_set_absent: "map_of d k = None \<Longrightarrow> dict_set k v d = d @ [(k, v)]"
  by (induction d) (auto split: if_splits)

lemma dict_set_last: "map_of d k = None \<Longrightarrow> dict_set k v (d @ [(k, w)]) = d @ [(k, v)]"
  by (induction d) (auto split: if_splits)

lemma dict_set_map:
  "distinct ks \<Longrightarrow> c \<in> set ks \<Longrightarrow>
     dict_set c v (map (\<lambda>k. (k, g k)) ks) = map (\<lambda>k. (k, if k = c then v else g k)) ks"
proof (induction ks)
  case Nil
  then show ?case by simp
next
  case (Cons k ks)
  show ?case
  proof (cases "k = c")
    case True
    with Cons.prems have "c \<notin> set ks" by simp
    then have "map (\<lambda>k. (k, if k = c then v else g k)) ks = map (\<lambda>k. (k, g k)) ks"
      by (intro map_cong) auto
    with True show ?thesis by simp
  next
    case False
    with Cons show ?thesis by simp
  qed
qed

lemma map_of_keyed: "map_of (map (\<lambda>k. (k, g k)) ks) c = (if c \<in> set ks then Some (g c) else None)"
  by (induction ks) auto

section \<open>What the store builds\<close>

lemma store_preference_document:
  "preferences (snd (store_preference mem c p)) =
     Some (let d = preferences_of mem in
           case map_of d c of
             None \<Rightarrow> d @ [(c, [p])]
           | Some l \<Rightarrow> if p \<in> set l then d else dict_set c (l @ [p]) d)"
  by (auto simp: store_preference_def preferences_of_def Let_def dict_get_def map_of_dict_set
        dict_set_absent dict_set_last split: option.splits)

lemma store_preference_conversations:
  "conversations (snd (store_preference mem c p)) = conversations mem"
  by (simp add: store_preference_def Let_def)

lemma store_preference_payload:
  "fst (store_preference mem c p) =
     [(''status'', JStr ''stored''), (''category'', JStr c), (''preference'', JStr p)]"
  by (simp add: store_preference_def Let_def)

lemma stored_list_alt: "stored_list mem c = (case map_of (preferences_of mem) c of None \<Rightarrow> [] | Some l \<Rightarrow> l)"
  by (simp add: stored_list_def preferences_of_def split: option.splits)

lemma stored_list_store_preference:
  "stored_list (snd (store_preference mem c p)) c' =
     (if c' = c then (if p \<in> set (stored_list mem c) then stored_list mem c else stored_list mem c @ [p])
      else stored_list mem c')"
  by (auto simp: stored_list_def store_preference_document preferences_of_def Let_def
        map_of_dict_set split: option.splits)

lemma store_preference_again:
  assumes "p \<in> set (stored_list mem c)"
  shows "snd (store_preference mem c p) = mem"
proof -
  from assms obtain d l where d: "preferences mem = Some d" and l: "map_of d c = Some l" and p: "p \<in> set l"
    by (auto simp: stored_list_def split: option.splits) metis
  then have "preferences (snd (store_preference mem c p)) = preferences mem"
    by (simp add: store_preference_document preferences_of_def)
  moreover have "snd (store_preference mem c p) = mem\<lparr>preferences := preferences (snd (store_preference mem c p))\<rparr>"
    by (simp add: store_preference_def Let_def)
  ultimately show ?thesis by simp
qed

lemma first_occurrences_snoc:
  "first_occurrences (xs @ [x]) = (if x \<in> set xs then first_occurrences xs else first_occurrences xs @ [x])"
  by (simp add: first_occurrences_def)

lemma set_first_occurrences: "set (first_occurrences xs) = set xs"
  by (simp add: first_occurrences_def)

lemma distinct_first_occurrences: "distinct (first_occurrences xs)"
  by (simp add: first_occurrences_def)

lemma first_occurrences_Nil: "first_occurrences [] = []"
  by (simp add: first_occurrences_def)

lemma named_for_snoc:
  "named_for k (ops @ [(c, p)]) = named_for k ops @ (if c = k then [p] else [])"
  by (simp add: named_for_def)

lemma named_for_Nil_iff: "k \<notin> fst ` set ops \<Longrightarrow> named_for k ops = []"
  by (auto simp: named_for_def filter_empty_conv)

lemma store_all_snoc:
  "store_all mem (ops @ [(c, p)]) = snd (store_preference (store_all mem ops) c p)"
  by (induction mem ops rule: store_all.induct) auto

lemma store_all_builds:
  "preferences_of (store_all empty_memory ops) =
     map (\<lambda>k. (k, first_occurrences (named_for k ops))) (first_occurrences (map fst ops))"
proof (induction ops rule: rev_induct)
  case Nil
  show ?case by (simp add: empty_memory_def preferences_of_def first_occurrences_Nil)
next
  case (snoc op ops)
  obtain c p where op: "op = (c, p)" by (cases op)
  let ?m = "store_all empty_memory ops"
  let ?ks = "first_occurrences (map fst ops)"
  let ?g = "\<lambda>k. first_occurrences (named_for k ops)"
  let ?g' = "\<lambda>k. first_occurrences (named_for k (ops @ [(c, p)]))"
  have d: "preferences_of ?m = map (\<lambda>k. (k, ?g k)) ?ks" by (rule snoc.IH)
  have new: "preferences_of (store_all empty_memory (ops @ [(c, p)])) =
      (case map_of (preferences_of ?m) c of
         None \<Rightarrow> preferences_of ?m @ [(c, [p])]
       | Some l \<Rightarrow> if p \<in> set l then preferences_of ?m else dict_set c (l @ [p]) (preferences_of ?m))"
    by (simp add: store_all_snoc preferences_of_def [of "snd _"] store_preference_document Let_def)
  have other: "k \<noteq> c \<Longrightarrow> ?g' k = ?g k" for k
    by (simp add: named_for_snoc)
  show ?case
  proof (cases "c \<in> set (map fst ops)")
    case False
    then have none: "map_of (preferences_of ?m) c = None"
      by (simp add: d map_of_keyed set_first_occurrences)
    have ks': "first_occurrences (map fst (ops @ [(c, p)])) = ?ks @ [c]"
      using False by (simp add: first_occurrences_snoc)
    have "named_for c ops = []" using False by (simp add: named_for_Nil_iff)
    then have gc: "?g' c = [p]"
      by (simp add: named_for_snoc first_occurrences_def)
    have "k \<in> set ?ks \<Longrightarrow> ?g' k = ?g k" for k
    proof -
      assume "k \<in> set ?ks"
      then have "k \<in> set (map fst ops)" by (simp add: set_first_occurrences)
      with False have "k \<noteq> c" by auto
      then show "?g' k = ?g k" by (rule other)
    qed
    then have "map (\<lambda>k. (k, ?g' k)) ?ks = map (\<lambda>k. (k, ?g k)) ?ks"
      by (intro map_cong) auto
    then have "map (\<lambda>k. (k, ?g' k)) (?ks @ [c]) = preferences_of ?m @ [(c, [p])]"
      using gc d by simp
    with new none ks' op show ?thesis by simp
  next
    case True
    then have some: "map_of (preferences_of ?m) c = Some (?g c)"
      by (simp add: d map_of_keyed set_first_occurrences)
    have ks': "first_occurrences (map fst (ops @ [(c, p)])) = ?ks"
      using True by (simp add: first_occurrences_snoc)
    have cks: "c \<in> set ?ks" using True by (simp add: set_first_occurrences)
    show ?thesis
    proof (cases "p \<in> set (named_for c ops)")
      case True
      then have "?g' c = ?g c"
        by (simp add: named_for_snoc first_occurrences_snoc)
      then have "?g' k = ?g k" for k
        using other [of k] by (cases "k = c") auto
      then have "map (\<lambda>k. (k, ?g' k)) ?ks = preferences_of ?m"
        using d by simp
      moreover have "p \<in> set (?g c)" using True by (simp add: set_first_occurrences)
      ultimately show ?thesis using new some ks' op by simp
    next
      case False
      then have gc: "?g' c = ?g c @ [p]"
        by (simp add: named_for_snoc first_occurrences_snoc)
      have "map (\<lambda>k. (k, ?g' k)) ?ks = map (\<lambda>k. (k, if k = c then ?g c @ [p] else ?g k)) ?ks"
        by (intro map_cong) (auto simp: gc other)
      also have "\<dots> = dict_set c (?g c @ [p]) (map (\<lambda>k. (k, ?g k)) ?ks)"
        by (rule dict_set_map [OF distinct_first_occurrences cks, symmetric])
      finally have "map (\<lambda>k. (k, ?g' k)) ?ks = dict_set c (?g c @ [p]) (preferences_of ?m)"
        using d by simp
      moreover have "p \<notin> set (?g c)" using False by (simp add: set_first_occurrences)
      ultimately show ?thesis using new some ks' op by simp
    qed
  qed
qed

lemma stored_list_store_all:
  "stored_list (store_all empty_memory ops) c = first_occurrences (named_for c ops)"
proof (cases "c \<in> set (map fst ops)")
  case True
  then show ?thesis
    by (simp add: stored_list_alt store_all_builds map_of_keyed set_first_occurrences)
next
  case False
  then have "named_for c ops = []" by (simp add: named_for_Nil_iff)
  with False show ?thesis
    by (simp add: stored_list_alt store_all_builds map_of_keyed set_first_occurrences
          first_occurrences_Nil)
qed

lemma distinct_count_le_1: "distinct l \<Longrightarrow> count_list l p \<le> 1"
  by (induction l) auto

section \<open>Substrings and slices\<close>




lemma last_five_length: "length (last_five xs) = min 5 (length xs)"
  by (simp add: last_five_def)

lemma last_five_suffix: "\<exists>pre. xs = pre @ last_five xs"
proof -
  have "xs = take (length xs - 5) xs @ last_five xs"
    by (simp add: last_five_def)
  then show ?thesis by blast
qed



section \<open>The requests of a turn\<close>

lemma chat_first_request:
  "\<exists>rest. snd (snd (chat e ai message)) =
            first_request (conversation_history ai @ [UserMessage message]) # rest
          \<and> (map req_functions rest = [] \<or> map req_functions rest = [None])"
  by (auto simp: chat_def handle_function_call_def Let_def final_request_def
        split: sum.splits message.splits option.splits dispatched.splits prod.splits)

section \<open>The claims\<close>

text \<open>
  C1. The claim: the request of the RequestingReply step carries the schema of every tool
  of the registry. What the code does: the first request that \<^verbatim>\<open>chat\<close> sends in a turn
  carries the transcript with the new user entry, \<^verbatim>\<open>function_call="auto"\<close> and the
  literal list \<^verbatim>\<open>functions\<close>, which holds three schemas, for \<^verbatim>\<open>get_weather\<close>,
  \<^verbatim>\<open>store_preference\<close> and \<^verbatim>\<open>get_preferences\<close>, in this order; a second request of the
  turn carries no functions. The registry and the dispatcher know five tools, and
  \<^verbatim>\<open>store_conversation\<close> and \<^verbatim>\<open>get_conversations\<close> are not advertised.
\<close>

theorem chat_advertises_three_functions:
  "(\<exists>rest. snd (snd (chat e ai message)) =
            \<lparr>req_model = ''deepseek-chat'',
             req_messages = conversation_history ai @ [UserMessage message],
             req_functions = Some chat_functions, req_function_call = Some ''auto'',
             req_temperature = ''0.7''\<rparr> # rest
          \<and> (map req_functions rest = [] \<or> map req_functions rest = [None]))
   \<and> map fn_name chat_functions = [''get_weather'', ''store_preference'', ''get_preferences'']
   \<and> map fn_name chat_functions = take 3 (map fst get_available_tools)
   \<and> drop 3 (map fst get_available_tools) = [''store_conversation'', ''get_conversations'']"
proof -
  have "\<exists>rest. snd (snd (chat e ai message)) =
            \<lparr>req_model = ''deepseek-chat'',
             req_messages = conversation_history ai @ [UserMessage message],
             req_functions = Some chat_functions, req_function_call = Some ''auto'',
             req_temperature = ''0.7''\<rparr> # rest
          \<and> (map req_functions rest = [] \<or> map req_functions rest = [None])"
    using chat_first_request [of e ai message] by (simp add: first_request_def)
  moreover have "map fn_name chat_functions = [''get_weather'', ''store_preference'', ''get_preferences'']"
    by (simp add: chat_functions_def)
  moreover have "map fst get_available_tools =
      [''get_weather'', ''store_preference'', ''get_preferences'', ''store_conversation'',
       ''get_conversations'']"
    by (simp add: get_available_tools_def)
  ultimately show ?thesis by simp
qed

theorem advertised_functions_not_whole_registry:
  "map req_functions (snd (snd (chat plain_env (init_smart_ai empty_memory) ''hi''))) =
     [Some chat_functions]
   \<and> map fn_name chat_functions \<noteq> map fst get_available_tools
   \<and> ''store_conversation'' \<in> set (map fst get_available_tools)
   \<and> ''store_conversation'' \<notin> set (map fn_name chat_functions)
   \<and> ''get_conversations'' \<in> set (map fst get_available_tools)
   \<and> ''get_conversations'' \<notin> set (map fn_name chat_functions)"
  by (simp add: chat_def Let_def plain_env_def first_request_def chat_functions_def
        get_available_tools_def)

text \<open>
  C2. The claim: a function-call entry is always followed at once by the result entry of
  the same function. What the code does: \<^verbatim>\<open>_handle_function_call\<close> appends the call
  entry, then evaluates \<^verbatim>\<open>json.dumps(tool_result)\<close>, then appends the result entry. When
  \<^verbatim>\<open>json.dumps\<close> raises, the \<^verbatim>\<open>except\<close> of \<^verbatim>\<open>chat\<close> turns the exception into the
  reply \<^verbatim>\<open>"Error: ..."\<close>, and the call entry stays in the transcript with no result entry;
  the next turn appends its user entry right after it.
\<close>

theorem call_entry_left_unpaired:
  assumes "create e (first_request (conversation_history ai @ [UserMessage message])) =
             Inr (MessageObject c (Some fc))"
    and "dispatch e (mcp ai) fc = CallReturns (Inl err) st"
  shows "chat e ai message =
           (Some (''Error: '' @ err),
            ai\<lparr>conversation_history :=
                 conversation_history ai
                   @ [UserMessage message, FunctionCall (fc_name fc) (fc_arguments fc)],
               mcp := st\<rparr>,
            [first_request (conversation_history ai @ [UserMessage message])])"
  using assms by (simp add: chat_def handle_function_call_def Let_def)

theorem call_entry_left_unpaired_witness:
  "run (init_smart_ai empty_memory) [(storing_env, ''remember this'')] =
     \<lparr>conversation_history =
        [UserMessage ''remember this'', FunctionCall ''store_preference'' deep_arguments,
         FunctionResult ''store_preference'' ''{status: stored, ...}'',
         AssistantMessage (Some ''Stored.'')],
      mcp = Foreign\<rparr>
   \<and> create asking_env
       (first_request
          (conversation_history (run (init_smart_ai empty_memory) [(storing_env, ''remember this'')])
             @ [UserMessage ''what do I like''])) =
       Inr (MessageObject None
              (Some \<lparr>fc_name = ''get_preferences'', fc_arguments = category_arguments\<rparr>))
   \<and> dispatch asking_env
       (mcp (run (init_smart_ai empty_memory) [(storing_env, ''remember this'')]))
       \<lparr>fc_name = ''get_preferences'', fc_arguments = category_arguments\<rparr> =
       CallReturns (Inl recursion_error) Foreign
   \<and> fst (chat asking_env
            (run (init_smart_ai empty_memory) [(storing_env, ''remember this'')])
            ''what do I like'') =
       Some (''Error: '' @ recursion_error)
   \<and> conversation_history
       (run (init_smart_ai empty_memory)
          [(storing_env, ''remember this''), (asking_env, ''what do I like'')]) =
       [UserMessage ''remember this'', FunctionCall ''store_preference'' deep_arguments,
        FunctionResult ''store_preference'' ''{status: stored, ...}'',
        AssistantMessage (Some ''Stored.''),
        UserMessage ''what do I like'', FunctionCall ''get_preferences'' category_arguments]
   \<and> conversation_history
       (run (init_smart_ai empty_memory)
          [(storing_env, ''remember this''), (asking_env, ''what do I like''),
           (plain_env, ''hi'')]) =
       [UserMessage ''remember this'', FunctionCall ''store_preference'' deep_arguments,
        FunctionResult ''store_preference'' ''{status: stored, ...}'',
        AssistantMessage (Some ''Stored.''),
        UserMessage ''what do I like'', FunctionCall ''get_preferences'' category_arguments,
        UserMessage ''hi'',
        AssistantMessage (Some (object_text (MessageObject (Some ''Hello'') None)))]"
proof -
  let ?fc = "\<lparr>fc_name = ''get_preferences'', fc_arguments = category_arguments\<rparr>"
  let ?ai1 = "\<lparr>conversation_history =
        [UserMessage ''remember this'', FunctionCall ''store_preference'' deep_arguments,
         FunctionResult ''store_preference'' ''{status: stored, ...}'',
         AssistantMessage (Some ''Stored.'')],
      mcp = Foreign\<rparr>"
  let ?ai2 = "\<lparr>conversation_history =
        [UserMessage ''remember this'', FunctionCall ''store_preference'' deep_arguments,
         FunctionResult ''store_preference'' ''{status: stored, ...}'',
         AssistantMessage (Some ''Stored.''),
         UserMessage ''what do I like'', FunctionCall ''get_preferences'' category_arguments],
      mcp = Foreign\<rparr>"
  have r1: "run (init_smart_ai empty_memory) [(storing_env, ''remember this'')] = ?ai1"
    by (simp add: chat_def handle_function_call_def dispatch_def Let_def storing_env_def
          calling_env_def init_smart_ai_def first_request_def final_request_def)
  have h1: "create asking_env
       (first_request (conversation_history ?ai1 @ [UserMessage ''what do I like''])) =
       Inr (MessageObject None (Some ?fc))"
    by (simp add: asking_env_def)
  have h2: "dispatch asking_env (mcp ?ai1) ?fc = CallReturns (Inl recursion_error) Foreign"
    by (simp add: dispatch_def asking_env_def)
  note c = call_entry_left_unpaired [OF h1 h2]
  have f: "fst (chat asking_env ?ai1 ''what do I like'') = Some (''Error: '' @ recursion_error)"
    using c by simp
  have t2: "fst (snd (chat asking_env ?ai1 ''what do I like'')) = ?ai2"
    using c by simp
  have t3: "conversation_history (fst (snd (chat plain_env ?ai2 ''hi''))) =
       [UserMessage ''remember this'', FunctionCall ''store_preference'' deep_arguments,
        FunctionResult ''store_preference'' ''{status: stored, ...}'',
        AssistantMessage (Some ''Stored.''),
        UserMessage ''what do I like'', FunctionCall ''get_preferences'' category_arguments,
        UserMessage ''hi'',
        AssistantMessage (Some (object_text (MessageObject (Some ''Hello'') None)))]"
    by (simp add: chat_def Let_def plain_env_def calling_env_def)
  have run2: "run (init_smart_ai empty_memory)
          [(storing_env, ''remember this''), (asking_env, ''what do I like'')] = ?ai2"
    using r1 t2 by simp
  have run3: "conversation_history (run (init_smart_ai empty_memory)
          [(storing_env, ''remember this''), (asking_env, ''what do I like''), (plain_env, ''hi'')]) =
       [UserMessage ''remember this'', FunctionCall ''store_preference'' deep_arguments,
        FunctionResult ''store_preference'' ''{status: stored, ...}'',
        AssistantMessage (Some ''Stored.''),
        UserMessage ''what do I like'', FunctionCall ''get_preferences'' category_arguments,
        UserMessage ''hi'',
        AssistantMessage (Some (object_text (MessageObject (Some ''Hello'') None)))]"
    using r1 t2 t3 by simp
  show ?thesis
    unfolding r1 run2 run3 using h1 h2 f by simp
qed

text \<open>
  C3. The claim: for every store state, two equal calls of \<^verbatim>\<open>store_preference\<close> leave the
  preference exactly once in the list of the category. What the code does: it appends the
  preference unless the list holds it already, and never removes anything. So when the
  list of the category holds the preference at most once, both calls return
  \<^verbatim>\<open>{status: "stored", category, preference}\<close>, the second call changes nothing and the
  list holds the preference exactly once; every document built from the empty one by
  calls of \<^verbatim>\<open>store_preference\<close> is such a state. A list that holds the preference twice
  (\<open>twice_listed\<close>) keeps both copies. Membership is equality of strings, so it is exact
  and case-sensitive.
\<close>

theorem store_preference_idempotent:
  assumes "count_list (stored_list mem category) preference \<le> 1"
  shows "fst (store_preference mem category preference) =
           [(''status'', JStr ''stored''), (''category'', JStr category),
            (''preference'', JStr preference)]
         \<and> fst (store_preference (snd (store_preference mem category preference))
                  category preference) =
           [(''status'', JStr ''stored''), (''category'', JStr category),
            (''preference'', JStr preference)]
         \<and> snd (store_preference (snd (store_preference mem category preference))
                  category preference) =
           snd (store_preference mem category preference)
         \<and> count_list
             (stored_list
                (snd (store_preference (snd (store_preference mem category preference))
                        category preference))
                category)
             preference = 1
         \<and> count_list (stored_list (store_all empty_memory ops) category) preference \<le> 1"
proof -
  let ?m1 = "snd (store_preference mem category preference)"
  have l1: "stored_list ?m1 category =
      (if preference \<in> set (stored_list mem category) then stored_list mem category
       else stored_list mem category @ [preference])"
    by (simp add: stored_list_store_preference)
  then have "preference \<in> set (stored_list ?m1 category)" by auto
  then have again: "snd (store_preference ?m1 category preference) = ?m1"
    by (rule store_preference_again)
  have one: "count_list (stored_list ?m1 category) preference = 1"
  proof (cases "preference \<in> set (stored_list mem category)")
    case True
    then have "count_list (stored_list mem category) preference \<noteq> 0"
      by (simp add: count_list_0_iff)
    with assms have "count_list (stored_list mem category) preference = 1" by arith
    with True l1 show ?thesis by simp
  next
    case False
    then have "count_list (stored_list mem category) preference = 0"
      by (simp add: count_list_0_iff)
    with False l1 show ?thesis by simp
  qed
  have built: "count_list (stored_list (store_all empty_memory ops) category) preference \<le> 1"
    using distinct_count_le_1 [OF distinct_first_occurrences]
    by (simp add: stored_list_store_all)
  show ?thesis
    using again one built by (simp add: store_preference_payload)
qed

theorem store_preference_idempotent_witness:
  "count_list (stored_list empty_memory ''travel'') ''museums'' \<le> 1
   \<and> fst (store_preference (snd (store_preference empty_memory ''travel'' ''museums''))
            ''travel'' ''museums'') =
       [(''status'', JStr ''stored''), (''category'', JStr ''travel''),
        (''preference'', JStr ''museums'')]
   \<and> snd (store_preference (snd (store_preference empty_memory ''travel'' ''museums''))
            ''travel'' ''museums'') =
       snd (store_preference empty_memory ''travel'' ''museums'')
   \<and> snd (store_preference empty_memory ''travel'' ''museums'') =
       \<lparr>preferences = Some [(''travel'', [''museums''])], conversations = None\<rparr>
   \<and> count_list
       (stored_list
          (snd (store_preference (snd (store_preference empty_memory ''travel'' ''museums''))
                  ''travel'' ''museums''))
          ''travel'')
       ''museums'' = 1"
proof -
  have h: "count_list (stored_list empty_memory ''travel'') ''museums'' \<le> 1"
    by (simp add: stored_list_def empty_memory_def)
  have m1: "snd (store_preference empty_memory ''travel'' ''museums'') =
      \<lparr>preferences = Some [(''travel'', [''museums''])], conversations = None\<rparr>"
    by (simp add: store_preference_def empty_memory_def Let_def dict_get_def)
  from store_preference_idempotent [OF h, of "[]"] h m1 show ?thesis by blast
qed

theorem store_preference_duplicates_stay:
  "count_list (stored_list twice_listed ''travel'') ''museums'' = 2
   \<and> count_list
       (stored_list
          (snd (store_preference (snd (store_preference twice_listed ''travel'' ''museums''))
                  ''travel'' ''museums''))
          ''travel'')
       ''museums'' = 2"
  by (simp add: store_preference_def twice_listed_def stored_list_def Let_def dict_get_def)



text \<open>
  C5. \<^verbatim>\<open>get_preferences\<close> with a category given (a string that is not empty) returns the
  one-entry dictionary from the category to the list the document holds for it, which is
  the empty list when the category is unknown; no branch raises. With no category it
  returns the whole preferences dictionary of the document. After any sequence of
  \<^verbatim>\<open>store_preference\<close> calls on the empty document that is: the categories in the order
  in which they were first named, each with the preferences named for it, in the order
  in which they were first named, each once.
\<close>

theorem get_preferences_category_or_all:
  "(c \<noteq> [] \<longrightarrow>
      get_preferences mem (Some c) = [(c, JList (map JStr (stored_list mem c)))])
   \<and> (c \<noteq> [] \<and> c \<notin> fst ` set (case preferences mem of None \<Rightarrow> [] | Some p \<Rightarrow> p) \<longrightarrow>
      get_preferences mem (Some c) = [(c, JList [])])
   \<and> get_preferences mem None =
       (case preferences mem of
          None \<Rightarrow> []
        | Some p \<Rightarrow> map (\<lambda>(k, l). (k, JList (map JStr l))) p)
   \<and> get_preferences (store_all empty_memory ops) None =
       map (\<lambda>k. (k, JList (map JStr (first_occurrences (named_for k ops)))))
         (first_occurrences (map fst ops))
   \<and> (c \<noteq> [] \<longrightarrow>
      get_preferences (store_all empty_memory ops) (Some c) =
        [(c, JList (map JStr (first_occurrences (named_for c ops))))])"
proof -
  have given: "c \<noteq> [] \<Longrightarrow> get_preferences m (Some c) = [(c, JList (map JStr (stored_list m c)))]" for m
    by (simp add: get_preferences_def stored_list_alt dict_get_def)
  have unknown: "c \<notin> fst ` set (case preferences mem of None \<Rightarrow> [] | Some p \<Rightarrow> p) \<Longrightarrow>
      stored_list mem c = []"
  proof -
    assume n: "c \<notin> fst ` set (case preferences mem of None \<Rightarrow> [] | Some p \<Rightarrow> p)"
    show "stored_list mem c = []"
    proof (cases "preferences mem")
      case None
      then show ?thesis by (simp add: stored_list_def)
    next
      case (Some p)
      with n have "map_of p c = None" by (simp add: map_of_eq_None_iff)
      with Some show ?thesis by (simp add: stored_list_def)
    qed
  qed
  have all: "get_preferences m None =
       (case preferences m of
          None \<Rightarrow> []
        | Some p \<Rightarrow> map (\<lambda>(k, l). (k, JList (map JStr l))) p)" for m
    by (simp add: get_preferences_def preferences_json_def preferences_of_def split: option.splits)
  have "get_preferences (store_all empty_memory ops) None =
      preferences_json (preferences_of (store_all empty_memory ops))"
    by (simp add: get_preferences_def)
  then have built: "get_preferences (store_all empty_memory ops) None =
       map (\<lambda>k. (k, JList (map JStr (first_occurrences (named_for k ops)))))
         (first_occurrences (map fst ops))"
    by (simp add: store_all_builds preferences_json_def comp_def)
  show ?thesis
    using given [of mem] given [of "store_all empty_memory ops"] unknown all [of mem] built
    by (simp add: stored_list_store_all)
qed

theorem get_preferences_category_or_all_witness:
  "''travel'' \<noteq> [] \<and> ''pets'' \<noteq> []
   \<and> get_preferences
       (store_all empty_memory
          [(''travel'', ''museums''), (''food'', ''ramen''), (''travel'', ''local food''),
           (''travel'', ''museums'')])
       (Some ''travel'') =
       [(''travel'', JList (map JStr [''museums'', ''local food'']))]
   \<and> get_preferences
       (store_all empty_memory
          [(''travel'', ''museums''), (''food'', ''ramen''), (''travel'', ''local food''),
           (''travel'', ''museums'')])
       (Some ''pets'') =
       [(''pets'', JList (map JStr []))]
   \<and> get_preferences
       (store_all empty_memory
          [(''travel'', ''museums''), (''food'', ''ramen''), (''travel'', ''local food''),
           (''travel'', ''museums'')])
       None =
       [(''travel'', JList [JStr ''museums'', JStr ''local food'']),
        (''food'', JList [JStr ''ramen''])]"
proof -
  let ?ops = "[(''travel'', ''museums''), (''food'', ''ramen''), (''travel'', ''local food''),
           (''travel'', ''museums'')]"
  have h: "''travel'' \<noteq> [] \<and> ''pets'' \<noteq> []" by simp
  have t: "first_occurrences (named_for ''travel'' ?ops) = [''museums'', ''local food'']"
    by (simp add: first_occurrences_def named_for_def)
  have f: "first_occurrences (named_for ''food'' ?ops) = [''ramen'']"
    by (simp add: first_occurrences_def named_for_def)
  have p: "first_occurrences (named_for ''pets'' ?ops) = []"
    by (simp add: first_occurrences_def named_for_def)
  have k: "first_occurrences (map fst ?ops) = [''travel'', ''food'']"
    by (simp add: first_occurrences_def)
  have a: "get_preferences (store_all empty_memory ?ops) (Some ''travel'') =
      [(''travel'', JList (map JStr (first_occurrences (named_for ''travel'' ?ops))))]"
    using get_preferences_category_or_all [of "''travel''" empty_memory ?ops] h by blast
  have b: "get_preferences (store_all empty_memory ?ops) (Some ''pets'') =
      [(''pets'', JList (map JStr (first_occurrences (named_for ''pets'' ?ops))))]"
    using get_preferences_category_or_all [of "''pets''" empty_memory ?ops] h by blast
  have c: "get_preferences (store_all empty_memory ?ops) None =
       map (\<lambda>k. (k, JList (map JStr (first_occurrences (named_for k ?ops)))))
         (first_occurrences (map fst ?ops))"
    using get_preferences_category_or_all [of "''travel''" empty_memory ?ops] by blast
  have c': "get_preferences (store_all empty_memory ?ops) None =
       [(''travel'', JList [JStr ''museums'', JStr ''local food'']),
        (''food'', JList [JStr ''ramen''])]"
    unfolding c k by (simp only: list.map t f)
  from h a [unfolded t] b [unfolded p] c' show ?thesis by blast
qed

text \<open>
  C6. The claim: for a tool name outside the five names and every argument bundle, the
  dispatcher returns \<^verbatim>\<open>{error: "Unknown tool: <name>"}\<close> and never raises. What the code
  does: the bundle is passed as keyword arguments of
  \<^verbatim>\<open>process_tool_call(self, tool_name, **kwargs)\<close>. For every bundle that holds neither
  the keyword \<^verbatim>\<open>self\<close> nor \<^verbatim>\<open>tool_name\<close> the call returns that payload, leaves the store
  as it was and sends no request. A bundle that holds one of them makes the call raise
  \<^verbatim>\<open>TypeError\<close>.
\<close>

theorem unknown_tool_error_payload:
  assumes "tool_name \<notin> {''get_weather'', ''store_preference'', ''get_preferences'',
                          ''store_conversation'', ''get_conversations''}"
  shows "(kw ''self'' = None \<and> kw ''tool_name'' = None \<longrightarrow>
            process_tool_call py nw now mem tool_name kw =
              Inr ([(''error'', JStr (''Unknown tool: '' @ tool_name))], mem, []))
         \<and> (kw ''self'' \<noteq> None \<or> kw ''tool_name'' \<noteq> None \<longrightarrow>
            process_tool_call py nw now mem tool_name kw = Inl (multiple_values py kw))"
  using assms by (simp add: process_tool_call_def)

theorem unknown_tool_error_payload_witness:
  "''delete_everything'' \<notin> {''get_weather'', ''store_preference'', ''get_preferences'',
                          ''store_conversation'', ''get_conversations''}
   \<and> map_of [(''confirm'', ''yes'')] ''self'' = None
   \<and> map_of [(''confirm'', ''yes'')] ''tool_name'' = None
   \<and> process_tool_call ascii_python offline ''now'' empty_memory ''delete_everything''
        (map_of [(''confirm'', ''yes'')]) =
        Inr ([(''error'', JStr ''Unknown tool: delete_everything'')], empty_memory, [])"
proof -
  have h: "''delete_everything'' \<notin> {''get_weather'', ''store_preference'', ''get_preferences'',
                          ''store_conversation'', ''get_conversations''}"
    by simp
  have k: "map_of [(''confirm'', ''yes'')] ''self'' = None
           \<and> map_of [(''confirm'', ''yes'')] ''tool_name'' = None"
    by simp
  from h k unknown_tool_error_payload [OF h, of "map_of [(''confirm'', ''yes'')]"
        ascii_python offline "''now''" empty_memory]
  show ?thesis by simp
qed

theorem unknown_tool_bundle_names_parameter:
  "''bogus'' \<notin> {''get_weather'', ''store_preference'', ''get_preferences'',
                 ''store_conversation'', ''get_conversations''}
   \<and> process_tool_call ascii_python offline ''now'' empty_memory ''bogus''
        (map_of [(''tool_name'', ''x'')]) =
      Inl ''process_tool_call() got multiple values for argument''"
  by (simp add: process_tool_call_def ascii_python_def)

text \<open>
  C7. When the geocoding lookup answers without results (the key is absent or null, or the
  list is empty), \<^verbatim>\<open>get_weather\<close> returns \<^verbatim>\<open>{error: "City '<city>' not found"}\<close> and the
  only request it has sent is the geocoding one: the forecast is called zero times.
\<close>

theorem city_not_found_no_forecast:
  assumes "geocoding nw city = Inr gd"
    and "results gd = None \<or> results gd = Some []"
  shows "fst (get_weather nw city country') =
           [(''error'', JStr (''City '' @ [CHR 0x27] @ city @ [CHR 0x27] @ '' not found''))]
         \<and> snd (get_weather nw city country') = [GeocodingCall city]
         \<and> forecast_calls (snd (get_weather nw city country')) = 0"
  using assms
  by (auto simp: get_weather_def city_not_found_def apostrophe_def forecast_calls_def)

theorem city_not_found_no_forecast_witness:
  "geocoding no_city ''Atlantis'' = Inr \<lparr>results = Some []\<rparr>
   \<and> fst (get_weather no_city ''Atlantis'' []) =
        [(''error'', JStr (''City '' @ [CHR 0x27] @ ''Atlantis'' @ [CHR 0x27] @ '' not found''))]
   \<and> forecast_calls (snd (get_weather no_city ''Atlantis'' [])) = 0"
proof -
  have g: "geocoding no_city ''Atlantis'' = Inr \<lparr>results = Some []\<rparr>"
    by (simp add: no_city_def)
  have r: "results \<lparr>results = Some []\<rparr> = None \<or> results \<lparr>results = Some ([] :: location list)\<rparr> = Some []"
    by simp
  from g city_not_found_no_forecast [OF g r, of "[]"] show ?thesis by blast
qed

text \<open>
  C8. The claim: on a plain-text reply the orchestrator appends and returns the text
  content of the model's message. What the code does: with a message object whose
  \<^verbatim>\<open>function_call\<close> is \<^verbatim>\<open>None\<close>, the test \<^verbatim>\<open>isinstance(message, dict)\<close> fails and the
  text is \<^verbatim>\<open>str(message)\<close>, the rendering of the whole object; that text is appended as
  the assistant entry and returned, whatever the content is. The other path,
  \<^verbatim>\<open>_handle_function_call\<close>, reads \<^verbatim>\<open>message.content\<close>.
\<close>

theorem chat_plain_text_reply:
  assumes "create e (first_request (conversation_history ai @ [UserMessage message])) =
             Inr (MessageObject c None)"
  shows "chat e ai message =
           (Some (str_message e (MessageObject c None)),
            ai\<lparr>conversation_history :=
                 conversation_history ai
                   @ [UserMessage message,
                      AssistantMessage (Some (str_message e (MessageObject c None)))]\<rparr>,
            [first_request (conversation_history ai @ [UserMessage message])])"
  using assms by (simp add: chat_def Let_def)

theorem chat_plain_text_reply_witness:
  "create plain_env
     (first_request (conversation_history (init_smart_ai empty_memory) @ [UserMessage ''hi''])) =
     Inr (MessageObject (Some ''Hello'') None)
   \<and> fst (chat plain_env (init_smart_ai empty_memory) ''hi'') =
       Some (object_text (MessageObject (Some ''Hello'') None))
   \<and> fst (chat plain_env (init_smart_ai empty_memory) ''hi'') \<noteq> Some ''Hello''"
proof -
  have h: "create plain_env
     (first_request (conversation_history (init_smart_ai empty_memory) @ [UserMessage ''hi''])) =
     Inr (MessageObject (Some ''Hello'') None)"
    by (simp add: plain_env_def)
  have s: "str_message plain_env = object_text"
    by (simp add: plain_env_def calling_env_def)
  have "fst (chat plain_env (init_smart_ai empty_memory) ''hi'') =
       Some (object_text (MessageObject (Some ''Hello'') None))"
    using chat_plain_text_reply [OF h] s by simp
  moreover have "object_text (MessageObject (Some ''Hello'') None) \<noteq> ''Hello''"
    by (simp add: object_text_def apostrophe_def)
  ultimately show ?thesis using h by simp
qed

text \<open>
  C9. The weather-code table is fixed: code 95 is described as "Thunderstorm", code 2 as
  "Partly cloudy", and every code that is not a key of the table (999 is one) as
  "Unknown conditions".
\<close>

theorem weather_description_table:
  "get_weather_description 95 = ''Thunderstorm''
   \<and> get_weather_description 2 = ''Partly cloudy''
   \<and> (\<forall>code. code \<notin> fst ` set weather_codes \<longrightarrow>
          get_weather_description code = ''Unknown conditions'')"
proof (intro conjI allI impI)
  show "get_weather_description 95 = ''Thunderstorm''"
    by (simp add: get_weather_description_def dict_get_def weather_codes_def)
  show "get_weather_description 2 = ''Partly cloudy''"
    by (simp add: get_weather_description_def dict_get_def weather_codes_def)
next
  fix code :: int
  assume "code \<notin> fst ` set weather_codes"
  then have "map_of weather_codes code = None"
    by (simp add: map_of_eq_None_iff)
  then show "get_weather_description code = ''Unknown conditions''"
    by (simp add: get_weather_description_def dict_get_def)
qed

theorem weather_description_table_witness:
  "(999::int) \<notin> fst ` set weather_codes
   \<and> get_weather_description 999 = ''Unknown conditions''
   \<and> get_weather_description 95 = ''Thunderstorm''
   \<and> get_weather_description 2 = ''Partly cloudy''"
proof -
  have h: "(999::int) \<notin> fst ` set weather_codes"
    by (simp add: weather_codes_def)
  from weather_description_table h show ?thesis by blast
qed


end
